theory Spec2Isabelle
  imports Complex_Main
begin

section \<open>Freeze Guard collector: event schema, metric registry, recent-event buffer\<close>

text \<open>
  The development embeds \<^verbatim>\<open>collector/models.py\<close>, \<^verbatim>\<open>collector/metrics.py\<close>,
  \<^verbatim>\<open>collector/app.py\<close> and the VS Code variants of the first two.

  Conventions of the embedding:
  \<^item> a Python \<^verbatim>\<open>float\<close> is a \<^typ>\<open>real\<close>: rounding, infinities and NaN are not
    represented;
  \<^item> a Python \<^verbatim>\<open>int\<close> is an \<^typ>\<open>int\<close>;
  \<^item> a value obtained from \<^verbatim>\<open>request.json()\<close> is a \<open>json\<close> tree, a dict being an
    association list read with \<^const>\<open>map_of\<close>;
  \<^item> the module-level metric objects and the deque \<^verbatim>\<open>RING\<close> are the fields of one
    record that \<open>ingest\<close> takes and returns;
  \<^item> a labelled counter is a map from label values to its value, a labelled histogram a
    map from label values to the list of observed amounts, oldest first; a label
    combination that was never requested with \<^verbatim>\<open>.labels(...)\<close> is absent from the map.
\<close>

subsection \<open>Parsed request bodies\<close>

datatype json =
    JNull
  | JBool bool
  | JInt int
  | JFloat real
  | JStr string
  | JArr "json list"
  | JObj "(string \<times> json) list"

datatype datetime = Datetime int int int int int int int "int option"
  \<comment> \<open>year, month, day, hour, minute, second, microsecond, UTC offset in seconds\<close>

text \<open>
  The decoding functions of the libraries the collector calls are parameters of the model:
  \<^verbatim>\<open>json.loads\<close> behind \<^verbatim>\<open>request.json()\<close>, and the validators pydantic runs for
  the field types \<^verbatim>\<open>str\<close>, \<^verbatim>\<open>float\<close>, \<^verbatim>\<open>int\<close> and \<^verbatim>\<open>datetime\<close>. Each returns
  \<open>None\<close> where the library raises.
\<close>

record lib =
  json_loads :: "string \<Rightarrow> json option"
  validate_str :: "json \<Rightarrow> string option"
  validate_float :: "json \<Rightarrow> real option"
  validate_int :: "json \<Rightarrow> int option"
  validate_datetime :: "json \<Rightarrow> datetime option"

subsection \<open>models.py\<close>

record ActionEvent =
  action :: string
  duration_ms :: real
  thread :: string
  heap_delta_bytes :: int
  edt_stalls :: int
  edt_longest_stall_ms :: real
  ts :: datetime

text \<open>The two \<^verbatim>\<open>Literal[...]\<close> types of the field \<^verbatim>\<open>thread\<close>.\<close>

definition thread_literal :: "string list" where
  "thread_literal = [''EDT'', ''BGT'', ''MAIN'', ''WORKER'']"

definition vscode_thread_literal :: "string list" where
  "vscode_thread_literal = [''MAIN'', ''WORKER'']"

datatype field_error = Missing | Invalid

type_synonym validation_error = "(string \<times> field_error) list"

text \<open>A \<^verbatim>\<open>Literal\<close> of strings accepts exactly the strings it lists.\<close>

definition validate_literal :: "string list \<Rightarrow> json \<Rightarrow> string option" where
  "validate_literal allowed j =
     (case j of JStr s \<Rightarrow> (if s \<in> set allowed then Some s else None) | _ \<Rightarrow> None)"

text \<open>A field without a default must be present; a field with one takes it when absent.\<close>

definition required ::
  "string \<Rightarrow> (json \<Rightarrow> 'a option) \<Rightarrow> (string \<times> json) list \<Rightarrow> validation_error + 'a" where
  "required f v kv =
     (case map_of kv f of
        None \<Rightarrow> Inl [(f, Missing)]
      | Some j \<Rightarrow> (case v j of None \<Rightarrow> Inl [(f, Invalid)] | Some x \<Rightarrow> Inr x))"

definition optional ::
  "string \<Rightarrow> (json \<Rightarrow> 'a option) \<Rightarrow> 'a \<Rightarrow> (string \<times> json) list \<Rightarrow> validation_error + 'a" where
  "optional f v d kv =
     (case map_of kv f of
        None \<Rightarrow> Inr d
      | Some j \<Rightarrow> (case v j of None \<Rightarrow> Inl [(f, Invalid)] | Some x \<Rightarrow> Inr x))"

definition errors_of :: "validation_error + 'a \<Rightarrow> validation_error" where
  "errors_of r = (case r of Inl e \<Rightarrow> e | Inr _ \<Rightarrow> [])"

text \<open>
  \<^verbatim>\<open>ActionEvent(**data)\<close>: \<open>data\<close> must be a dict (anything else raises at the call),
  every field is validated, extra keys are ignored, and the errors of all fields are
  reported together. The first argument after the library is the \<^verbatim>\<open>Literal\<close> of
  \<^verbatim>\<open>thread\<close>, the only difference between the two \<^verbatim>\<open>models.py\<close>.
\<close>

definition validate_model :: "lib \<Rightarrow> string list \<Rightarrow> json \<Rightarrow> validation_error + ActionEvent" where
  "validate_model L allowed data =
     (case data of
        JObj kv \<Rightarrow>
          (let a = required ''action'' (validate_str L) kv;
               d = required ''duration_ms'' (validate_float L) kv;
               t = required ''thread'' (validate_literal allowed) kv;
               h = optional ''heap_delta_bytes'' (validate_int L) 0 kv;
               s = optional ''edt_stalls'' (validate_int L) 0 kv;
               l = optional ''edt_longest_stall_ms'' (validate_float L) 0 kv;
               z = required ''ts'' (validate_datetime L) kv
           in case (a, d, t, h, s, l, z) of
                (Inr a', Inr d', Inr t', Inr h', Inr s', Inr l', Inr z') \<Rightarrow>
                  Inr \<lparr>action = a', duration_ms = d', thread = t', heap_delta_bytes = h',
                       edt_stalls = s', edt_longest_stall_ms = l', ts = z'\<rparr>
              | _ \<Rightarrow>
                  Inl (errors_of a @ errors_of d @ errors_of t @ errors_of h @
                       errors_of s @ errors_of l @ errors_of z))
      | _ \<Rightarrow> Inl [(''__root__'', Invalid)])"

definition ActionEvent_init :: "lib \<Rightarrow> json \<Rightarrow> validation_error + ActionEvent" where
  "ActionEvent_init L = validate_model L thread_literal"

definition vscode_ActionEvent_init :: "lib \<Rightarrow> json \<Rightarrow> validation_error + ActionEvent" where
  "vscode_ActionEvent_init L = validate_model L vscode_thread_literal"

subsection \<open>Labelled counters and histograms\<close>

definition counter_value :: "('k \<rightharpoonup> int) \<Rightarrow> 'k \<Rightarrow> int" where
  "counter_value m k = (case m k of None \<Rightarrow> 0 | Some c \<Rightarrow> c)"

definition observations :: "('k \<rightharpoonup> 'v list) \<Rightarrow> 'k \<Rightarrow> 'v list" where
  "observations m k = (case m k of None \<Rightarrow> [] | Some os \<Rightarrow> os)"

text \<open>\<^verbatim>\<open>m.labels(k).inc(n)\<close> and \<^verbatim>\<open>m.labels(k).observe(v)\<close>.\<close>

definition inc :: "('k \<rightharpoonup> int) \<Rightarrow> 'k \<Rightarrow> int \<Rightarrow> ('k \<rightharpoonup> int)" where
  "inc m k n = m(k \<mapsto> counter_value m k + n)"

definition observe :: "('k \<rightharpoonup> 'v list) \<Rightarrow> 'k \<Rightarrow> 'v \<Rightarrow> ('k \<rightharpoonup> 'v list)" where
  "observe m k v = m(k \<mapsto> observations m k @ [v])"

subsection \<open>app.py\<close>

record collector =
  action_duration_seconds :: "(string \<times> string) \<rightharpoonup> real list"
  edt_stall_duration_seconds :: "string \<rightharpoonup> real list"
  edt_stalls_total :: "string \<rightharpoonup> int"
  events_total :: "(string \<times> string) \<rightharpoonup> int"
  heap_delta_bytes_metric :: "(string \<times> string) \<rightharpoonup> int list"
  RING :: "(datetime \<times> ActionEvent) list"

text \<open>The state after the modules are loaded: no series yet, an empty deque.\<close>

definition fresh :: collector where
  "fresh = \<lparr>action_duration_seconds = Map.empty, edt_stall_duration_seconds = Map.empty,
            edt_stalls_total = Map.empty, events_total = Map.empty,
            heap_delta_bytes_metric = Map.empty, RING = []\<rparr>"

definition RING_maxlen :: nat where
  "RING_maxlen = 256"

text \<open>\<^verbatim>\<open>deque.append\<close> with a \<^verbatim>\<open>maxlen\<close>: append on the right, then drop from the left
  while the deque is too long.\<close>

definition deque_append :: "nat \<Rightarrow> 'a list \<Rightarrow> 'a \<Rightarrow> 'a list" where
  "deque_append maxlen d x = (let d' = d @ [x] in if length d' > maxlen then tl d' else d')"

datatype response =
    Ack
  | JsonParseError string
  | ModelError validation_error json

definition status_code :: "response \<Rightarrow> nat" where
  "status_code r = (case r of Ack \<Rightarrow> 200 | JsonParseError _ \<Rightarrow> 400 | ModelError _ _ \<Rightarrow> 422)"

text \<open>The metric updates and the append of \<^verbatim>\<open>ingest\<close>, for a validated event.\<close>

definition record_event :: "collector \<Rightarrow> ActionEvent \<Rightarrow> collector" where
  "record_event st ev =
     (let secs = duration_ms ev / 1000;
          stall_secs = max 0 (edt_longest_stall_ms ev) / 1000;
          st1 = st\<lparr>action_duration_seconds :=
                     observe (action_duration_seconds st) (action ev, thread ev) secs\<rparr>;
          st2 = (if stall_secs > 0
                 then st1\<lparr>edt_stall_duration_seconds :=
                             observe (edt_stall_duration_seconds st1) (action ev) stall_secs\<rparr>
                 else st1);
          st3 = (if edt_stalls ev > 0
                 then st2\<lparr>edt_stalls_total :=
                             inc (edt_stalls_total st2) (action ev) (edt_stalls ev)\<rparr>
                 else st2);
          st4 = st3\<lparr>events_total := inc (events_total st3) (action ev, thread ev) 1\<rparr>;
          st5 = (if heap_delta_bytes ev \<noteq> 0
                 then st4\<lparr>heap_delta_bytes_metric :=
                             observe (heap_delta_bytes_metric st4) (action ev, thread ev)
                               (heap_delta_bytes ev)\<rparr>
                 else st4)
      in st5\<lparr>RING := deque_append RING_maxlen (RING st5) (ts ev, ev)\<rparr>)"

definition ingest :: "lib \<Rightarrow> collector \<Rightarrow> string \<Rightarrow> response \<times> collector" where
  "ingest L st raw =
     (case json_loads L raw of
        None \<Rightarrow> (JsonParseError raw, st)
      | Some data \<Rightarrow>
          (case ActionEvent_init L data of
             Inl errs \<Rightarrow> (ModelError errs data, st)
           | Inr ev \<Rightarrow> (Ack, record_event st ev)))"

text \<open>The routes the decorators of \<^verbatim>\<open>app.py\<close> register: method, path, handler.\<close>

datatype handler = Ingest | Metrics | Report

definition app_routes :: "((string \<times> string) \<times> handler) list" where
  "app_routes =
     [((''POST'', ''/ingest''), Ingest),
      ((''GET'', ''/metrics''), Metrics),
      ((''GET'', ''/report''), Report)]"

subsection \<open>Sequences of calls\<close>

text \<open>The event a call of \<^verbatim>\<open>ingest\<close> gets through both \<^verbatim>\<open>try\<close> blocks, if any.\<close>

definition accepted :: "lib \<Rightarrow> string \<Rightarrow> ActionEvent option" where
  "accepted L raw =
     (case json_loads L raw of
        None \<Rightarrow> None
      | Some data \<Rightarrow> (case ActionEvent_init L data of Inl _ \<Rightarrow> None | Inr ev \<Rightarrow> Some ev))"

primrec accepted_events :: "lib \<Rightarrow> string list \<Rightarrow> ActionEvent list" where
  "accepted_events L [] = []"
| "accepted_events L (r # rs) =
     (case accepted L r of
        None \<Rightarrow> accepted_events L rs
      | Some ev \<Rightarrow> ev # accepted_events L rs)"

text \<open>One call after the other on the shared state, the responses dropped.\<close>

primrec ingest_all :: "lib \<Rightarrow> collector \<Rightarrow> string list \<Rightarrow> collector" where
  "ingest_all L st [] = st"
| "ingest_all L st (r # rs) = ingest_all L (snd (ingest L st r)) rs"

subsection \<open>metrics.py, both variants\<close>

datatype metric_kind = Counter | Histogram "real list"

record metric =
  metric_name :: string
  documentation :: string
  labelnames :: "string list"
  kind :: metric_kind

definition ACTION_DURATION_BUCKETS :: "real list" where
  "ACTION_DURATION_BUCKETS = [0.010, 0.025, 0.050, 0.100, 0.250, 0.500, 1.0, 2.0, 5.0, 10.0]"

definition STALL_DURATION_BUCKETS :: "real list" where
  "STALL_DURATION_BUCKETS = [0.100, 0.250, 0.500, 1.0, 2.0, 5.0]"

text \<open>Each module as the list of its metric objects, under their Python names.\<close>

definition collector_metrics :: "(string \<times> metric) list" where
  "collector_metrics =
     [(''action_duration_seconds'',
         \<lparr>metric_name = ''action_duration_seconds'',
          documentation = ''Action duration in seconds'',
          labelnames = [''action'', ''thread''],
          kind = Histogram ACTION_DURATION_BUCKETS\<rparr>),
      (''edt_stall_duration_seconds'',
         \<lparr>metric_name = ''edt_stall_duration_seconds'',
          documentation = ''Observed EDT stall (longest in event window), seconds'',
          labelnames = [''action''],
          kind = Histogram STALL_DURATION_BUCKETS\<rparr>),
      (''edt_stalls_total'',
         \<lparr>metric_name = ''edt_stalls_total'',
          documentation = ''Count of EDT stall events observed'',
          labelnames = [''action''],
          kind = Counter\<rparr>),
      (''events_total'',
         \<lparr>metric_name = ''events_total'',
          documentation = ''Number of events ingested'',
          labelnames = [''action'', ''thread''],
          kind = Counter\<rparr>),
      (''heap_delta_bytes'',
         \<lparr>metric_name = ''heap_delta_bytes'',
          documentation = ''Memory allocation delta in bytes per action'',
          labelnames = [''action'', ''thread''],
          kind = Histogram [- 50000000, - 10000000, - 1000000, - 100000, - 10000, 0,
                            10000, 100000, 1000000, 10000000, 50000000]\<rparr>)]"

definition vscode_collector_metrics :: "(string \<times> metric) list" where
  "vscode_collector_metrics =
     [(''action_duration_seconds'',
         \<lparr>metric_name = ''vscode_action_duration_seconds'',
          documentation = ''VSCode action duration in seconds'',
          labelnames = [''action'', ''thread''],
          kind = Histogram ACTION_DURATION_BUCKETS\<rparr>),
      (''edt_stall_duration_seconds'',
         \<lparr>metric_name = ''vscode_main_stall_duration_seconds'',
          documentation = ''Observed main thread stall (longest in event window), seconds'',
          labelnames = [''action''],
          kind = Histogram STALL_DURATION_BUCKETS\<rparr>),
      (''edt_stalls_total'',
         \<lparr>metric_name = ''vscode_main_stalls_total'',
          documentation = ''Count of main thread stall events observed'',
          labelnames = [''action''],
          kind = Counter\<rparr>),
      (''events_total'',
         \<lparr>metric_name = ''vscode_events_total'',
          documentation = ''Number of VSCode events ingested'',
          labelnames = [''action'', ''thread''],
          kind = Counter\<rparr>)]"

text \<open>What a metric is apart from its name and help text.\<close>

definition shape :: "metric \<Rightarrow> string list \<times> metric_kind" where
  "shape m = (labelnames m, kind m)"

subsection \<open>Request bodies of the scenarios\<close>

text \<open>
  The bodies below are the texts a client sends, each paired with the value
  \<^verbatim>\<open>json.loads\<close> returns for it. \<open>body_C\<close> is the malformed body of the endpoint test
  and has no value.
\<close>

definition body_A :: string where
  \<open>body_A = ''{"action": "X", "duration_ms": 850.0, "thread": "EDT", "heap_delta_bytes": 3072, "edt_stalls": 4, "edt_longest_stall_ms": 275.0, "ts": "2024-01-01T12:00:00Z"}''\<close>

definition fields_A :: "(string \<times> json) list" where
  "fields_A =
     [(''action'', JStr ''X''), (''duration_ms'', JFloat 850), (''thread'', JStr ''EDT''),
      (''heap_delta_bytes'', JInt 3072), (''edt_stalls'', JInt 4),
      (''edt_longest_stall_ms'', JFloat 275), (''ts'', JStr ''2024-01-01T12:00:00Z'')]"

definition body_B :: string where
  \<open>body_B = ''{"action": "X", "duration_ms": 100.0, "thread": "INVALID", "heap_delta_bytes": 1024, "edt_stalls": 1, "edt_longest_stall_ms": 50.0, "ts": "2024-01-01T12:00:00Z"}''\<close>

definition fields_B :: "(string \<times> json) list" where
  "fields_B =
     [(''action'', JStr ''X''), (''duration_ms'', JFloat 100), (''thread'', JStr ''INVALID''),
      (''heap_delta_bytes'', JInt 1024), (''edt_stalls'', JInt 1),
      (''edt_longest_stall_ms'', JFloat 50), (''ts'', JStr ''2024-01-01T12:00:00Z'')]"

definition body_C :: string where
  \<open>body_C = ''{"action": "test", "invalid": json}''\<close>

definition body_quiet :: string where
  \<open>body_quiet = ''{"action": "X", "duration_ms": 12.5, "thread": "EDT", "ts": "2024-01-01T12:00:00Z"}''\<close>

definition fields_quiet :: "(string \<times> json) list" where
  "fields_quiet =
     [(''action'', JStr ''X''), (''duration_ms'', JFloat 12.5), (''thread'', JStr ''EDT''),
      (''ts'', JStr ''2024-01-01T12:00:00Z'')]"

definition body_negative :: string where
  \<open>body_negative = ''{"action": "Y", "duration_ms": 1.0, "thread": "MAIN", "edt_stalls": -3, "edt_longest_stall_ms": -5.0, "ts": "2024-01-01T12:00:00Z"}''\<close>

definition fields_negative :: "(string \<times> json) list" where
  "fields_negative =
     [(''action'', JStr ''Y''), (''duration_ms'', JFloat 1), (''thread'', JStr ''MAIN''),
      (''edt_stalls'', JInt (- 3)), (''edt_longest_stall_ms'', JFloat (- 5)),
      (''ts'', JStr ''2024-01-01T12:00:00Z'')]"

definition body_empty_action :: string where
  \<open>body_empty_action = ''{"action": "", "duration_ms": 1.0, "thread": "EDT", "ts": "2024-01-01T12:00:00Z"}''\<close>

definition fields_empty_action :: "(string \<times> json) list" where
  "fields_empty_action =
     [(''action'', JStr []), (''duration_ms'', JFloat 1), (''thread'', JStr ''EDT''),
      (''ts'', JStr ''2024-01-01T12:00:00Z'')]"

definition noon :: datetime where
  "noon = Datetime 2024 1 1 12 0 0 0 (Some 0)"

text \<open>
  The libraries on the scenarios: \<^verbatim>\<open>json.loads\<close> as the table of the bodies above, the
  field validators on the values a JSON document holds natively (a string for
  \<^verbatim>\<open>str\<close>, a number for \<^verbatim>\<open>float\<close>, an integer for \<^verbatim>\<open>int\<close>), and the one
  timestamp the bodies use for \<^verbatim>\<open>datetime\<close>.
\<close>

definition scenario_lib :: lib where
  "scenario_lib =
     \<lparr>json_loads = map_of
        [(body_A, JObj fields_A), (body_B, JObj fields_B), (body_quiet, JObj fields_quiet),
         (body_negative, JObj fields_negative), (body_empty_action, JObj fields_empty_action)],
      validate_str = (\<lambda>j. case j of JStr s \<Rightarrow> Some s | _ \<Rightarrow> None),
      validate_float =
        (\<lambda>j. case j of JFloat r \<Rightarrow> Some r | JInt n \<Rightarrow> Some (of_int n) | _ \<Rightarrow> None),
      validate_int = (\<lambda>j. case j of JInt n \<Rightarrow> Some n | _ \<Rightarrow> None),
      validate_datetime =
        (\<lambda>j. case j of
               JStr s \<Rightarrow> (if s = ''2024-01-01T12:00:00Z'' then Some noon else None)
             | _ \<Rightarrow> None)\<rparr>"

definition event_A :: ActionEvent where
  "event_A = \<lparr>action = ''X'', duration_ms = 850, thread = ''EDT'', heap_delta_bytes = 3072,
              edt_stalls = 4, edt_longest_stall_ms = 275, ts = noon\<rparr>"


definition event_negative :: ActionEvent where
  "event_negative = \<lparr>action = ''Y'', duration_ms = 1, thread = ''MAIN'', heap_delta_bytes = 0,
                     edt_stalls = - 3, edt_longest_stall_ms = - 5, ts = noon\<rparr>"

definition event_empty_action :: ActionEvent where
  "event_empty_action = \<lparr>action = [], duration_ms = 1, thread = ''EDT'',
                         heap_delta_bytes = 0, edt_stalls = 0, edt_longest_stall_ms = 0,
                         ts = noon\<rparr>"

section \<open>Properties\<close>

subsection \<open>Auxiliary facts\<close>

lemma ingest_accepted: "accepted L raw = Some ev \<Longrightarrow> ingest L st raw = (Ack, record_event st ev)"
  by (auto simp: accepted_def ingest_def split: option.splits sum.splits)

lemma ingest_rejected:
  "accepted L raw = None \<Longrightarrow> snd (ingest L st raw) = st \<and> fst (ingest L st raw) \<noteq> Ack"
  by (auto simp: accepted_def ingest_def split: option.splits sum.splits)

lemma record_event_action_duration_seconds:
  "action_duration_seconds (record_event st ev) =
     observe (action_duration_seconds st) (action ev, thread ev) (duration_ms ev / 1000)"
  by (simp add: record_event_def Let_def)

lemma record_event_edt_stall_duration_seconds:
  "edt_stall_duration_seconds (record_event st ev) =
     (if max 0 (edt_longest_stall_ms ev) / 1000 > 0
      then observe (edt_stall_duration_seconds st) (action ev)
             (max 0 (edt_longest_stall_ms ev) / 1000)
      else edt_stall_duration_seconds st)"
  by (simp add: record_event_def Let_def)

lemma record_event_edt_stalls_total:
  "edt_stalls_total (record_event st ev) =
     (if edt_stalls ev > 0 then inc (edt_stalls_total st) (action ev) (edt_stalls ev)
      else edt_stalls_total st)"
  by (simp add: record_event_def Let_def)

lemma record_event_events_total:
  "events_total (record_event st ev) = inc (events_total st) (action ev, thread ev) 1"
  by (simp add: record_event_def Let_def)

lemma record_event_heap_delta_bytes_metric:
  "heap_delta_bytes_metric (record_event st ev) =
     (if heap_delta_bytes ev \<noteq> 0
      then observe (heap_delta_bytes_metric st) (action ev, thread ev) (heap_delta_bytes ev)
      else heap_delta_bytes_metric st)"
  by (simp add: record_event_def Let_def)

lemma record_event_RING:
  "RING (record_event st ev) = deque_append RING_maxlen (RING st) (ts ev, ev)"
  by (simp add: record_event_def Let_def)

lemmas record_event_fields =
  record_event_action_duration_seconds record_event_edt_stall_duration_seconds
  record_event_edt_stalls_total record_event_events_total
  record_event_heap_delta_bytes_metric record_event_RING

text \<open>The scenario bodies under the scenario libraries.\<close>

lemmas validate_defs =
  ActionEvent_init_def validate_model_def required_def optional_def validate_literal_def
  thread_literal_def errors_of_def

lemma loads_A: "json_loads scenario_lib body_A = Some (JObj fields_A)"
  by (simp add: scenario_lib_def body_A_def)

lemma loads_B: "json_loads scenario_lib body_B = Some (JObj fields_B)"
  by (simp add: scenario_lib_def body_A_def body_B_def)

lemma loads_C: "json_loads scenario_lib body_C = None"
  by (simp add: scenario_lib_def body_A_def body_B_def body_C_def body_quiet_def
      body_negative_def body_empty_action_def)


lemma loads_negative: "json_loads scenario_lib body_negative = Some (JObj fields_negative)"
  by (simp add: scenario_lib_def body_A_def body_B_def body_quiet_def body_negative_def)

lemma loads_empty_action:
  "json_loads scenario_lib body_empty_action = Some (JObj fields_empty_action)"
  by (simp add: scenario_lib_def body_A_def body_B_def body_quiet_def body_negative_def
      body_empty_action_def)

lemma init_A: "ActionEvent_init scenario_lib (JObj fields_A) = Inr event_A"
  by (simp add: validate_defs scenario_lib_def fields_A_def event_A_def)

lemma init_B: "ActionEvent_init scenario_lib (JObj fields_B) = Inl [(''thread'', Invalid)]"
  by (simp add: validate_defs scenario_lib_def fields_B_def)


lemma init_negative: "ActionEvent_init scenario_lib (JObj fields_negative) = Inr event_negative"
  by (simp add: validate_defs scenario_lib_def fields_negative_def event_negative_def)

lemma init_empty_action:
  "ActionEvent_init scenario_lib (JObj fields_empty_action) = Inr event_empty_action"
  by (simp add: validate_defs scenario_lib_def fields_empty_action_def event_empty_action_def)

lemma accepted_A: "accepted scenario_lib body_A = Some event_A"
  by (simp add: accepted_def loads_A init_A)


lemma accepted_negative: "accepted scenario_lib body_negative = Some event_negative"
  by (simp add: accepted_def loads_negative init_negative)

lemma accepted_empty_action: "accepted scenario_lib body_empty_action = Some event_empty_action"
  by (simp add: accepted_def loads_empty_action init_empty_action)

subsection \<open>The recent-event buffer as a window\<close>

lemma deque_append_drop:
  "deque_append n d x = drop (length (d @ [x]) - n) (d @ [x])" if "length d \<le> n"
proof (cases "length d = n")
  case True
  then have "deque_append n d x = tl (d @ [x])"
    by (simp add: deque_append_def Let_def)
  also have "\<dots> = drop (Suc 0) (d @ [x])"
    by (simp only: drop_Suc drop_0)
  also have "Suc 0 = length (d @ [x]) - n"
    using True by simp
  finally show ?thesis .
next
  case False
  with that show ?thesis by (simp add: deque_append_def Let_def)
qed

lemma ingest_RING:
  "RING (snd (ingest L st r)) =
     (case accepted L r of None \<Rightarrow> RING st
      | Some ev \<Rightarrow> deque_append RING_maxlen (RING st) (ts ev, ev))"
  by (cases "accepted L r") (simp_all add: ingest_rejected ingest_accepted record_event_RING)

lemma drop_window:
  fixes xs ys :: "'a list"
  shows "drop (length (drop (length xs - n) xs @ ys) - n) (drop (length xs - n) xs @ ys) =
         drop (length (xs @ ys) - n) (xs @ ys)"
proof (cases "length xs \<le> n")
  case True
  then show ?thesis by simp
next
  case False
  then have "drop (length xs - n) xs @ ys = drop (length xs - n) (xs @ ys)" by simp
  moreover from False have "length (drop (length xs - n) xs @ ys) - n + (length xs - n) =
      length (xs @ ys) - n" by simp
  ultimately show ?thesis by (simp only: drop_drop)
qed

lemma ingest_all_RING:
  "length (RING st) \<le> RING_maxlen \<Longrightarrow>
   RING (ingest_all L st raws) =
     drop (length (RING st @ map (\<lambda>ev. (ts ev, ev)) (accepted_events L raws)) - RING_maxlen)
       (RING st @ map (\<lambda>ev. (ts ev, ev)) (accepted_events L raws))"
proof (induction raws arbitrary: st)
  case Nil
  then show ?case by simp
next
  case (Cons r rs)
  show ?case
  proof (cases "accepted L r")
    case None
    with Cons show ?thesis by (simp add: ingest_rejected)
  next
    case (Some ev)
    let ?R = "RING st @ [(ts ev, ev)]"
    let ?M = "map (\<lambda>ev. (ts ev, ev)) (accepted_events L rs)"
    have step: "RING (snd (ingest L st r)) = drop (length ?R - RING_maxlen) ?R"
      using Some Cons.prems by (simp add: ingest_RING deque_append_drop)
    then have "length (RING (snd (ingest L st r))) \<le> RING_maxlen" by simp
    from Cons.IH [OF this]
    have "RING (ingest_all L st (r # rs)) =
        drop (length (drop (length ?R - RING_maxlen) ?R @ ?M) - RING_maxlen)
          (drop (length ?R - RING_maxlen) ?R @ ?M)"
      by (simp only: ingest_all.simps step)
    also have "\<dots> = drop (length (?R @ ?M) - RING_maxlen) (?R @ ?M)"
      by (rule drop_window)
    finally show ?thesis using Some by simp
  qed
qed

subsection \<open>Rejected calls\<close>

text \<open>
  C1: a call of \<open>ingest\<close> that fails returns the error of the step that failed, a parse
  error (status 400) when the body is not JSON and a model error (status 422) when the
  document does not validate, and returns the state it was given: every metric series
  and the contents of \<open>RING\<close> are as before the call.
\<close>

theorem ingest_failure_leaves_state:
  "(json_loads L raw = None \<longrightarrow> ingest L st raw = (JsonParseError raw, st)) \<and>
   (json_loads L raw = Some data \<and> ActionEvent_init L data = Inl errs \<longrightarrow>
      ingest L st raw = (ModelError errs data, st)) \<and>
   (fst (ingest L st raw) \<noteq> Ack \<longrightarrow>
      snd (ingest L st raw) = st \<and> status_code (fst (ingest L st raw)) \<in> {400, 422})"
  by (auto simp: ingest_def status_code_def split: option.splits sum.splits)

theorem ingest_failure_leaves_state_witness:
  "ingest scenario_lib (record_event fresh event_A) body_C =
     (JsonParseError body_C, record_event fresh event_A) \<and>
   ingest scenario_lib (record_event fresh event_A) body_B =
     (ModelError [(''thread'', Invalid)] (JObj fields_B), record_event fresh event_A) \<and>
   snd (ingest scenario_lib (record_event fresh event_A) body_B) = record_event fresh event_A"
  using ingest_failure_leaves_state [of scenario_lib body_C "record_event fresh event_A"]
    ingest_failure_leaves_state [of scenario_lib body_B "record_event fresh event_A"
      "JObj fields_B" "[(''thread'', Invalid)]"]
  by (simp add: loads_C loads_B init_B)

subsection \<open>Capacity of the recent-event buffer\<close>

text \<open>
  C2: with capacity 256, after any sequence of calls from the fresh state \<open>RING\<close> holds
  at most 256 entries, exactly the minimum of 256 and the number of accepted events, and
  these are the most recently accepted events in arrival order: the entries dropped are
  the oldest ones.
\<close>

theorem ring_buffer_bounded:
  "RING_maxlen = 256 \<and>
   length (RING (ingest_all L fresh raws)) \<le> RING_maxlen \<and>
   length (RING (ingest_all L fresh raws)) = min (length (accepted_events L raws)) RING_maxlen \<and>
   RING (ingest_all L fresh raws) =
     drop (length (accepted_events L raws) - RING_maxlen)
       (map (\<lambda>ev. (ts ev, ev)) (accepted_events L raws))"
proof -
  have "length (RING fresh) \<le> RING_maxlen" by (simp add: fresh_def)
  from ingest_all_RING [OF this, of L raws]
  have eq: "RING (ingest_all L fresh raws) =
     drop (length (accepted_events L raws) - RING_maxlen)
       (map (\<lambda>ev. (ts ev, ev)) (accepted_events L raws))"
    by (simp add: fresh_def)
  have len: "length (RING (ingest_all L fresh raws)) =
      min (length (accepted_events L raws)) RING_maxlen"
    unfolding eq by (simp add: min_def)
  from eq len show ?thesis by (simp add: RING_maxlen_def)
qed

subsection \<open>Metric updates of an accepted event\<close>








subsection \<open>Heap deltas\<close>




subsection \<open>Monotonicity of the stall counter\<close>

lemma ingest_edt_stalls_total_mono:
  "counter_value (edt_stalls_total st) a \<le>
   counter_value (edt_stalls_total (snd (ingest L st r))) a"
proof (cases "accepted L r")
  case None
  then show ?thesis by (simp add: ingest_rejected)
next
  case (Some ev)
  then show ?thesis
    by (simp add: ingest_accepted record_event_edt_stalls_total inc_def counter_value_def)
qed

lemma ingest_all_edt_stalls_total_mono:
  "counter_value (edt_stalls_total st) a \<le>
   counter_value (edt_stalls_total (ingest_all L st raws)) a"
proof (induction raws arbitrary: st)
  case Nil
  show ?case by simp
next
  case (Cons r rs)
  have "counter_value (edt_stalls_total st) a \<le>
      counter_value (edt_stalls_total (snd (ingest L st r))) a"
    by (rule ingest_edt_stalls_total_mono)
  also have "\<dots> \<le> counter_value (edt_stalls_total (ingest_all L (snd (ingest L st r)) rs)) a"
    by (rule Cons.IH)
  finally show ?case by simp
qed

text \<open>
  C10: for every action label, the value of \<open>edt_stalls_total\<close> does not decrease over any
  sequence of calls of \<open>ingest\<close>, accepted or rejected. An accepted event with
  \<open>edt_stalls \<le> 0\<close> leaves the counter as it was, and such events exist: the schema
  accepts the body with \<open>edt_stalls = -3\<close>.
\<close>

theorem edt_stalls_total_never_decreases:
  "counter_value (edt_stalls_total st) a \<le>
     counter_value (edt_stalls_total (ingest_all L st raws)) a \<and>
   (accepted L raw = Some ev \<and> edt_stalls ev \<le> 0 \<longrightarrow>
      edt_stalls_total (snd (ingest L st raw)) = edt_stalls_total st) \<and>
   accepted scenario_lib body_negative = Some event_negative \<and>
   edt_stalls event_negative = - 3"
  by (simp add: ingest_all_edt_stalls_total_mono ingest_accepted record_event_edt_stalls_total
      accepted_negative) (simp add: event_negative_def)

theorem edt_stalls_total_never_decreases_witness:
  "accepted scenario_lib body_negative = Some event_negative \<and>
   edt_stalls event_negative \<le> 0 \<and>
   edt_stalls_total (snd (ingest scenario_lib (record_event fresh event_A) body_negative)) =
     edt_stalls_total (record_event fresh event_A) \<and>
   counter_value (edt_stalls_total (record_event fresh event_A)) ''X'' \<le>
     counter_value (edt_stalls_total
       (ingest_all scenario_lib (record_event fresh event_A) [body_negative, body_A])) ''X''"
proof -
  have ev: "edt_stalls event_negative = - 3"
    by (simp add: event_negative_def)
  show ?thesis
    using edt_stalls_total_never_decreases
        [of "record_event fresh event_A" "''X''" scenario_lib "[body_negative, body_A]"
          body_negative event_negative]
    by (simp add: accepted_negative ev del: ingest_all.simps)
qed

subsection \<open>The action label\<close>

lemma required_Inr:
  "required f v kv = Inr x \<longleftrightarrow> (\<exists>j. map_of kv f = Some j \<and> v j = Some x)"
  by (auto simp: required_def split: option.splits)

lemma required_Cons_other: "f \<noteq> g \<Longrightarrow> required f v ((g, j) # kv) = required f v kv"
  by (simp add: required_def)

lemma optional_Cons_other: "f \<noteq> g \<Longrightarrow> optional f v d ((g, j) # kv) = optional f v d kv"
  by (simp add: optional_def)

lemma required_Cons_same: "v j = Some x \<Longrightarrow> required f v ((f, j) # kv) = Inr x"
  by (simp add: required_def)

lemma validate_model_Inr:
  "validate_model L allowed (JObj kv) = Inr ev \<longleftrightarrow>
     required ''action'' (validate_str L) kv = Inr (action ev) \<and>
     required ''duration_ms'' (validate_float L) kv = Inr (duration_ms ev) \<and>
     required ''thread'' (validate_literal allowed) kv = Inr (thread ev) \<and>
     optional ''heap_delta_bytes'' (validate_int L) 0 kv = Inr (heap_delta_bytes ev) \<and>
     optional ''edt_stalls'' (validate_int L) 0 kv = Inr (edt_stalls ev) \<and>
     optional ''edt_longest_stall_ms'' (validate_float L) 0 kv = Inr (edt_longest_stall_ms ev) \<and>
     required ''ts'' (validate_datetime L) kv = Inr (ts ev)"
  by (cases ev) (auto simp: validate_model_def Let_def split: sum.splits)

text \<open>
  C5, as stated, fails: the body whose \<open>action\<close> is the empty string validates, and
  \<open>ingest\<close> accepts it.
\<close>

theorem empty_action_accepted:
  "ActionEvent_init scenario_lib (JObj fields_empty_action) = Inr event_empty_action \<and>
   action event_empty_action = [] \<and>
   ingest scenario_lib fresh body_empty_action = (Ack, record_event fresh event_empty_action)"
  by (simp add: init_empty_action ingest_accepted [OF accepted_empty_action])
    (simp add: event_empty_action_def)

text \<open>
  C5, amended: the schema checks \<open>action\<close> with the \<open>str\<close> validator only. The action of
  a validated event is what that validator returns for the value under the key
  \<open>action\<close>, and replacing that value in an accepted document by any value the validator
  accepts, the empty string included, gives an accepted document whose event differs only
  in its action.
\<close>

theorem action_content_unconstrained:
  "validate_model L allowed (JObj kv) = Inr ev \<longrightarrow>
     (\<exists>j. map_of kv ''action'' = Some j \<and> validate_str L j = Some (action ev)) \<and>
     (validate_str L j' = Some s \<longrightarrow>
        validate_model L allowed (JObj ((''action'', j') # kv)) = Inr (ev\<lparr>action := s\<rparr>))"
proof
  assume ok: "validate_model L allowed (JObj kv) = Inr ev"
  then have fields:
    "required ''action'' (validate_str L) kv = Inr (action ev)"
    "required ''duration_ms'' (validate_float L) kv = Inr (duration_ms ev)"
    "required ''thread'' (validate_literal allowed) kv = Inr (thread ev)"
    "optional ''heap_delta_bytes'' (validate_int L) 0 kv = Inr (heap_delta_bytes ev)"
    "optional ''edt_stalls'' (validate_int L) 0 kv = Inr (edt_stalls ev)"
    "optional ''edt_longest_stall_ms'' (validate_float L) 0 kv = Inr (edt_longest_stall_ms ev)"
    "required ''ts'' (validate_datetime L) kv = Inr (ts ev)"
    by (simp_all add: validate_model_Inr)
  from fields(1) have first: "\<exists>j. map_of kv ''action'' = Some j \<and> validate_str L j = Some (action ev)"
    by (simp add: required_Inr)
  have second: "validate_model L allowed (JObj ((''action'', j') # kv)) = Inr (ev\<lparr>action := s\<rparr>)"
    if "validate_str L j' = Some s"
    using that fields(2-7)
    by (simp add: validate_model_Inr required_Cons_same required_Cons_other optional_Cons_other)
  from first second
  show "(\<exists>j. map_of kv ''action'' = Some j \<and> validate_str L j = Some (action ev)) \<and>
     (validate_str L j' = Some s \<longrightarrow>
        validate_model L allowed (JObj ((''action'', j') # kv)) = Inr (ev\<lparr>action := s\<rparr>))"
    by simp
qed

theorem action_content_unconstrained_witness:
  "validate_model scenario_lib thread_literal (JObj fields_A) = Inr event_A \<and>
   validate_str scenario_lib (JStr []) = Some [] \<and>
   validate_model scenario_lib thread_literal (JObj ((''action'', JStr []) # fields_A)) =
     Inr (event_A\<lparr>action := []\<rparr>)"
proof -
  have a: "validate_model scenario_lib thread_literal (JObj fields_A) = Inr event_A"
    using init_A by (simp add: ActionEvent_init_def)
  have b: "validate_str scenario_lib (JStr []) = Some []"
    by (simp add: scenario_lib_def)
  show ?thesis
    using action_content_unconstrained
      [of scenario_lib thread_literal fields_A event_A "JStr []" "[]"] a b
    by simp
qed

subsection \<open>The two metric modules\<close>

text \<open>
  C6, as stated, fails: the VS Code module defines four metrics and no heap-delta
  histogram, and its stall counter is named \<open>vscode_main_stalls_total\<close>, which is not the
  unified name under the prefix \<open>vscode_\<close>.
\<close>

theorem vscode_registry_differs:
  "map_of vscode_collector_metrics ''heap_delta_bytes'' = None \<and>
   map_option metric_name (map_of collector_metrics ''heap_delta_bytes'') =
     Some ''heap_delta_bytes'' \<and>
   length vscode_collector_metrics = 4 \<and>
   length collector_metrics = 5 \<and>
   map_option metric_name (map_of collector_metrics ''edt_stalls_total'') =
     Some ''edt_stalls_total'' \<and>
   map_option metric_name (map_of vscode_collector_metrics ''edt_stalls_total'') =
     Some ''vscode_main_stalls_total'' \<and>
   ''vscode_main_stalls_total'' \<noteq> ''vscode_'' @ ''edt_stalls_total''"
  by (simp add: vscode_collector_metrics_def collector_metrics_def)

text \<open>
  C6, amended: both modules define the action-duration histogram, the stall-duration
  histogram, the stall counter and the events counter, each with the same kind, label
  names and bucket bounds in both; the names are \<open>action_duration_seconds\<close>,
  \<open>edt_stall_duration_seconds\<close>, \<open>edt_stalls_total\<close>, \<open>events_total\<close> in the unified module
  and \<open>vscode_action_duration_seconds\<close>, \<open>vscode_main_stall_duration_seconds\<close>,
  \<open>vscode_main_stalls_total\<close>, \<open>vscode_events_total\<close> in the VS Code module; the thread
  enumeration is EDT, BGT, MAIN, WORKER in the unified schema and MAIN, WORKER in the
  VS Code schema, the two schemas being otherwise the same.
\<close>

theorem variants_share_four_metrics:
  "map fst vscode_collector_metrics =
     [''action_duration_seconds'', ''edt_stall_duration_seconds'', ''edt_stalls_total'',
      ''events_total''] \<and>
   map (\<lambda>v. map_option shape (map_of vscode_collector_metrics v))
       (map fst vscode_collector_metrics) =
     map (\<lambda>v. map_option shape (map_of collector_metrics v))
       (map fst vscode_collector_metrics) \<and>
   map (\<lambda>v. map_option shape (map_of collector_metrics v)) (map fst vscode_collector_metrics) =
     [Some ([''action'', ''thread''], Histogram ACTION_DURATION_BUCKETS),
      Some ([''action''], Histogram STALL_DURATION_BUCKETS),
      Some ([''action''], Counter),
      Some ([''action'', ''thread''], Counter)] \<and>
   map (\<lambda>v. map_option metric_name (map_of collector_metrics v))
       (map fst vscode_collector_metrics) =
     [Some ''action_duration_seconds'', Some ''edt_stall_duration_seconds'',
      Some ''edt_stalls_total'', Some ''events_total''] \<and>
   map (\<lambda>v. map_option metric_name (map_of vscode_collector_metrics v))
       (map fst vscode_collector_metrics) =
     [Some ''vscode_action_duration_seconds'', Some ''vscode_main_stall_duration_seconds'',
      Some ''vscode_main_stalls_total'', Some ''vscode_events_total''] \<and>
   thread_literal = [''EDT'', ''BGT'', ''MAIN'', ''WORKER''] \<and>
   vscode_thread_literal = [''MAIN'', ''WORKER''] \<and>
   ActionEvent_init L = validate_model L thread_literal \<and>
   vscode_ActionEvent_init L = validate_model L vscode_thread_literal"
  by (simp add: vscode_collector_metrics_def collector_metrics_def shape_def
      thread_literal_def vscode_thread_literal_def ActionEvent_init_def
      vscode_ActionEvent_init_def)

subsection \<open>The debug view\<close>

lemma accepted_events_replicate:
  "accepted L r = Some ev \<Longrightarrow> accepted_events L (replicate n r) = replicate n ev"
  by (induction n) simp_all

text \<open>
  C4: the application registers the routes \<open>POST /ingest\<close>, \<open>GET /metrics\<close> and
  \<open>GET /report\<close> only, so a request \<open>GET /debug\<close> reaches no handler; after 300 accepted
  calls from the fresh state \<open>RING\<close> holds 256 entries.
\<close>

theorem debug_route_not_registered:
  "map_of app_routes (''GET'', ''/debug'') = None \<and>
   map fst app_routes = [(''POST'', ''/ingest''), (''GET'', ''/metrics''), (''GET'', ''/report'')] \<and>
   length (accepted_events scenario_lib (replicate 300 body_A)) = 300 \<and>
   length (RING (ingest_all scenario_lib fresh (replicate 300 body_A))) = 256"
proof -
  have "length (RING fresh) \<le> RING_maxlen"
    by (simp add: fresh_def)
  from ingest_all_RING [OF this, of scenario_lib "replicate 300 body_A"]
  have "length (RING (ingest_all scenario_lib fresh (replicate 300 body_A))) = 256"
    by (simp add: accepted_events_replicate [OF accepted_A] fresh_def RING_maxlen_def)
  then show ?thesis
    by (simp add: app_routes_def accepted_events_replicate [OF accepted_A])
qed

end
